theory Spec2Isabelle
  imports Complex_Main
begin

section \<open>Error taxonomy (errors/ExchangeError.ts)\<close>

text \<open>
  The four classes form one hierarchy: \<open>AuthenticationError\<close>, \<open>InsufficientFundsError\<close>
  and \<open>InvalidOrderError\<close> extend \<open>ExchangeError\<close>. Each constructor stores the message
  it is given, the optional machine code and HTTP status, and sets \<open>name\<close> to the
  class name. A value of the record below is an instance of \<open>ExchangeError\<close>; its
  \<open>name\<close> tells which class built it, so \<open>e instanceof InvalidOrderError\<close> is
  \<open>name e = InvalidOrderError\<close>.
\<close>

datatype error_name =
  ExchangeError | AuthenticationError | InsufficientFundsError | InvalidOrderError

record exchange_error =
  name :: error_name
  message :: string
  code :: "string option"
  httpStatus :: "nat option"

definition new_ExchangeError :: "string \<Rightarrow> string option \<Rightarrow> nat option \<Rightarrow> exchange_error" where
  "new_ExchangeError m c h = \<lparr>name = ExchangeError, message = m, code = c, httpStatus = h\<rparr>"

definition new_AuthenticationError :: "string \<Rightarrow> exchange_error" where
  "new_AuthenticationError m =
     (new_ExchangeError m (Some ''AUTH_ERROR'') (Some 401))\<lparr>name := AuthenticationError\<rparr>"

definition new_InsufficientFundsError :: "string \<Rightarrow> exchange_error" where
  "new_InsufficientFundsError m =
     (new_ExchangeError m (Some ''INSUFFICIENT_FUNDS'') (Some 400))\<lparr>name := InsufficientFundsError\<rparr>"

definition new_InvalidOrderError :: "string \<Rightarrow> exchange_error" where
  "new_InvalidOrderError m =
     (new_ExchangeError m (Some ''INVALID_ORDER'') (Some 400))\<lparr>name := InvalidOrderError\<rparr>"

section \<open>Thrown values\<close>

text \<open>
  JavaScript can throw any value, and \<open>handleError\<close> takes its argument as \<open>unknown\<close>.
  It distinguishes three shapes:
  \<^item> an instance of \<open>ExchangeError\<close> or of a subclass (\<open>Taxonomy\<close>);
  \<^item> any other instance of \<open>Error\<close>, with its message (the empty string when none was
    given) and its \<open>code\<close> property when \<open>'code' in error\<close> holds (\<open>OtherError\<close>);
  \<^item> a value that is not an \<open>Error\<close> at all, such as a string or a plain object
    (\<open>NonError\<close>); a plain object may still have a \<open>message\<close> and a \<open>code\<close> property,
    which are kept here so that statements can speak of them.
  Property values are taken to be strings.
\<close>

datatype failure =
  Taxonomy exchange_error
| OtherError string "string option"
| NonError "string option" "string option"

text \<open>The message and the machine code a thrown value carries, whatever its shape.\<close>

fun carried_message :: "failure \<Rightarrow> string" where
  "carried_message (Taxonomy e) = message e"
| "carried_message (OtherError m c) = m"
| "carried_message (NonError m c) = (case m of None \<Rightarrow> [] | Some x \<Rightarrow> x)"

fun carried_code :: "failure \<Rightarrow> string option" where
  "carried_code (Taxonomy e) = code e"
| "carried_code (OtherError m c) = c"
| "carried_code (NonError m c) = c"

fun is_taxonomy :: "failure \<Rightarrow> bool" where
  "is_taxonomy (Taxonomy e) = True"
| "is_taxonomy (OtherError m c) = False"
| "is_taxonomy (NonError m c) = False"

fun instanceof_Error :: "failure \<Rightarrow> bool" where
  "instanceof_Error (Taxonomy e) = True"
| "instanceof_Error (OtherError m c) = True"
| "instanceof_Error (NonError m c) = False"

fun instanceof_InvalidOrderError :: "failure \<Rightarrow> bool" where
  "instanceof_InvalidOrderError (Taxonomy e) = (name e = InvalidOrderError)"
| "instanceof_InvalidOrderError (OtherError m c) = False"
| "instanceof_InvalidOrderError (NonError m c) = False"

fun instanceof_InsufficientFundsError :: "failure \<Rightarrow> bool" where
  "instanceof_InsufficientFundsError (Taxonomy e) = (name e = InsufficientFundsError)"
| "instanceof_InsufficientFundsError (OtherError m c) = False"
| "instanceof_InsufficientFundsError (NonError m c) = False"

text \<open>\<open>a || b\<close> on strings: the empty string is falsy.\<close>

definition str_or :: "string \<Rightarrow> string \<Rightarrow> string" where
  "str_or a b = (if a = [] then b else a)"

section \<open>BaseExchange.handleError\<close>

text \<open>
  The return type of \<open>handleError\<close> is \<open>never\<close>: every path of its body ends in a
  \<open>throw\<close>. The model function yields the value that is thrown, which on every path
  is an instance of the taxonomy.
\<close>

fun handleError :: "failure \<Rightarrow> string \<Rightarrow> exchange_error" where
  "handleError (Taxonomy e) defaultMessage = e"
| "handleError (OtherError m (Some c)) defaultMessage =
     (if c = ''AUTH_ERROR'' then new_AuthenticationError (str_or m ''Authentication failed'')
      else if c = ''INVALID_ORDER'' then new_InvalidOrderError (str_or m ''Invalid order parameters'')
      else if c = ''INSUFFICIENT_FUNDS'' then new_InsufficientFundsError (str_or m ''Insufficient funds'')
      else if c = ''NOT_FOUND'' then new_InvalidOrderError (str_or m ''Order not found'')
      else new_ExchangeError (str_or m defaultMessage) (Some c) None)"
| "handleError (OtherError m None) defaultMessage =
     new_ExchangeError (str_or m defaultMessage) None None"
| "handleError (NonError m c) defaultMessage = new_ExchangeError defaultMessage None None"

section \<open>Numbers and strings of the host language\<close>

text \<open>
  A JavaScript number is an IEEE 754 double: a finite value, one of the two
  infinities, or NaN. Finite values are embedded in the reals; comparison of doubles
  is exact, so \<open><\<close> and \<open><=\<close> are the comparisons of the reals, false as soon as one
  side is NaN. Multiplication rounds and \<open>String(x)\<close> prints the shortest decimal that
  reads back as \<open>x\<close>; both are taken as parameters (\<open>number_ops\<close>), so that every
  statement below holds for the arithmetic of the host, whatever it rounds to.
\<close>

datatype number = NaN | NegInfinity | Num real | Infinity

fun num_truthy :: "number \<Rightarrow> bool" where
  "num_truthy NaN = False"
| "num_truthy (Num x) = (x \<noteq> 0)"
| "num_truthy NegInfinity = True"
| "num_truthy Infinity = True"

fun num_lt :: "number \<Rightarrow> number \<Rightarrow> bool" where
  "num_lt NaN b = False"
| "num_lt a NaN = False"
| "num_lt NegInfinity b = (b \<noteq> NegInfinity)"
| "num_lt Infinity b = False"
| "num_lt (Num x) NegInfinity = False"
| "num_lt (Num x) Infinity = True"
| "num_lt (Num x) (Num y) = (x < y)"

fun num_le :: "number \<Rightarrow> number \<Rightarrow> bool" where
  "num_le NaN b = False"
| "num_le a NaN = False"
| "num_le NegInfinity b = True"
| "num_le Infinity b = (b = Infinity)"
| "num_le (Num x) NegInfinity = False"
| "num_le (Num x) Infinity = True"
| "num_le (Num x) (Num y) = (x \<le> y)"

record number_ops =
  times :: "number \<Rightarrow> number \<Rightarrow> number"
  toString :: "number \<Rightarrow> string"

text \<open>
  An optional field is \<open>None\<close> when the property is \<open>undefined\<close>. \<open>undefined\<close> is falsy,
  converts to NaN in arithmetic and comparisons, and prints as \<open>undefined\<close> in a
  template literal. The empty string is falsy.
\<close>

fun opt_num_truthy :: "number option \<Rightarrow> bool" where
  "opt_num_truthy None = False"
| "opt_num_truthy (Some x) = num_truthy x"

fun to_number :: "number option \<Rightarrow> number" where
  "to_number None = NaN"
| "to_number (Some x) = x"

fun str_truthy :: "string option \<Rightarrow> bool" where
  "str_truthy None = False"
| "str_truthy (Some x) = (x \<noteq> [])"

fun str_of :: "string option \<Rightarrow> string" where
  "str_of None = []"
| "str_of (Some x) = x"

fun template_of :: "string option \<Rightarrow> string" where
  "template_of None = ''undefined''"
| "template_of (Some x) = x"


text \<open>\<open>toLowerCase\<close>, on the ASCII letters.\<close>

definition lower_char :: "char \<Rightarrow> char" where
  "lower_char c =
     (case map_of (zip ''ABCDEFGHIJKLMNOPQRSTUVWXYZ'' ''abcdefghijklmnopqrstuvwxyz'') c of
        None \<Rightarrow> c | Some d \<Rightarrow> d)"

definition toLowerCase :: "string \<Rightarrow> string" where
  "toLowerCase s = map lower_char s"

text \<open>\<open>s.split(c)\<close>: the pieces of \<open>s\<close> between the occurrences of \<open>c\<close>; never empty.\<close>

fun str_split :: "char \<Rightarrow> string \<Rightarrow> string list" where
  "str_split c [] = [[]]"
| "str_split c (x # xs) =
     (if x = c then [] # str_split c xs
      else (case str_split c xs of [] \<Rightarrow> [[x]] | w # ws \<Rightarrow> (x # w) # ws))"

text \<open>Array destructuring: the element at an index, \<open>undefined\<close> past the end.\<close>

definition element :: "'a list \<Rightarrow> nat \<Rightarrow> 'a option" where
  "element xs i = (if i < length xs then Some (xs ! i) else None)"



text \<open>A natural number in decimal, as a template literal prints an HTTP status.\<close>

definition digit :: "nat \<Rightarrow> char" where
  "digit d = ''0123456789'' ! d"

fun string_of_nat :: "nat \<Rightarrow> string" where
  "string_of_nat n = (if n < 10 then [digit n] else string_of_nat (n div 10) @ [digit (n mod 10)])"

declare string_of_nat.simps [simp del]

section \<open>Domain model (types/exchange.types.ts)\<close>

text \<open>
  \<open>side\<close>, \<open>type\<close> and \<open>timeInForce\<close> are string literal types, unchecked at run time:
  \<open>validateOrder\<close> tests them for presence and lower-cases them, so they are modelled
  as optional strings, as are \<open>symbol\<close> and \<open>orderId\<close>, which the code tests for
  presence too.
\<close>

record Ticker =
  symbol :: string
  lastPrice :: number
  bidPrice :: number
  askPrice :: number
  volume24h :: number
  timestamp :: number

record Balance =
  asset :: string
  free :: number
  locked :: number
  total :: number

record OrderParams =
  symbol :: "string option"
  side :: "string option"
  type :: "string option"
  quantity :: "number option"
  price :: "number option"
  timeInForce :: "string option"

record Order = OrderParams +
  orderId :: "string option"
  status :: string
  filledQuantity :: number
  remainingQuantity :: number
  avgPrice :: number
  timestamp :: number

section \<open>BaseExchange (base/BaseExchange.ts)\<close>

text \<open>
  An asynchronous method is a function from the state of the world (the exchange
  behind the HTTP interface) to its outcome and the state it leaves: \<open>Inl\<close> the value
  the promise rejects with, \<open>Inr\<close> the value it resolves to. The abstract methods that
  the methods of the base class call are the fields of the record; \<open>getOrder\<close> may
  resolve to no order at all (\<open>null\<close> or \<open>undefined\<close>), which the callers test. The
  other abstract methods (\<open>getMarkets\<close>, \<open>getOpenOrders\<close>, \<open>getOrderHistory\<close>,
  \<open>modifyOrder\<close>, \<open>withdraw\<close>, \<open>getDepositAddress\<close>, \<open>signRequest\<close>) are called by no method
  of the base class and are left out, as are the credentials, which only the
  constructor and the subclasses read.
\<close>

record 's BaseExchange =
  getTicker :: "string \<Rightarrow> 's \<Rightarrow> (failure + Ticker) \<times> 's"
  getBalances :: "'s \<Rightarrow> (failure + Balance list) \<times> 's"
  createOrder :: "OrderParams \<Rightarrow> 's \<Rightarrow> (failure + Order) \<times> 's"
  getOrder :: "string \<Rightarrow> string \<Rightarrow> 's \<Rightarrow> (failure + Order option) \<times> 's"
  cancelOrder :: "string \<Rightarrow> string \<Rightarrow> 's \<Rightarrow> (failure + bool) \<times> 's"

definition getCurrentPrice :: "'s BaseExchange \<Rightarrow> string \<Rightarrow> 's \<Rightarrow> (failure + number) \<times> 's" where
  "getCurrentPrice this symb s =
     (case getTicker this symb s of
        (Inl error, s1) \<Rightarrow>
          (Inl (Taxonomy (handleError error (''Failed to get current price for '' @ symb))), s1)
      | (Inr ticker, s1) \<Rightarrow> (Inr (lastPrice ticker), s1))"

text \<open>
  \<open>getBalance\<close> is declared on a string, and \<open>validateOrder\<close> passes it an element of
  the split symbol, which is \<open>undefined\<close> when the symbol has no \<open>-\<close>; hence the
  optional argument. The \<open>InvalidOrderError\<close> for a missing balance is thrown inside
  the \<open>try\<close> and goes through the handler like any other failure.
\<close>

definition getBalance :: "'s BaseExchange \<Rightarrow> string option \<Rightarrow> 's \<Rightarrow> (failure + Balance) \<times> 's" where
  "getBalance this a s =
     (case getBalances this s of
        (Inl error, s1) \<Rightarrow>
          (Inl (Taxonomy (handleError error (''Failed to get balance for '' @ template_of a))), s1)
      | (Inr balances, s1) \<Rightarrow>
          (case find (\<lambda>b. Some (asset b) = a) balances of
             None \<Rightarrow>
               (Inl (Taxonomy (handleError
                  (Taxonomy (new_InvalidOrderError (''Balance not found for asset '' @ template_of a)))
                  (''Failed to get balance for '' @ template_of a))), s1)
           | Some balance \<Rightarrow> (Inr balance, s1)))"

record options =
  skipBalanceCheck :: "bool option"

text \<open>The handler of the balance check (lines 150-155).\<close>

definition validateOrder_catch :: "failure \<Rightarrow> failure" where
  "validateOrder_catch error =
     (if instanceof_InsufficientFundsError error then error
      else Taxonomy (handleError error ''Failed to validate balance''))"

text \<open>The \<open>try\<close> block of the balance check with its handler (lines 132-155).\<close>

definition validateOrder_balance ::
  "number_ops \<Rightarrow> 's BaseExchange \<Rightarrow> OrderParams \<Rightarrow> 's \<Rightarrow> (failure + unit) \<times> 's" where
  "validateOrder_balance J this params s =
     (let parts = str_split CHR ''-'' (str_of (symbol params));
          baseAsset = element parts 0;
          quoteAsset = element parts 1;
          a = (if side params = Some ''buy'' then quoteAsset else baseAsset)
      in case getBalance this a s of
           (Inl error, s1) \<Rightarrow> (Inl (validateOrder_catch error), s1)
         | (Inr balance, s1) \<Rightarrow>
             (case (if type params = Some ''market'' \<or> \<not> opt_num_truthy (price params)
                    then getCurrentPrice this (str_of (symbol params)) s1
                    else (Inr (to_number (price params)), s1)) of
                (Inl error, s2) \<Rightarrow> (Inl (validateOrder_catch error), s2)
              | (Inr currentPrice, s2) \<Rightarrow>
                  (let requiredAmount =
                         (if side params = Some ''buy''
                          then times J (to_number (quantity params)) currentPrice
                          else to_number (quantity params))
                   in if num_lt (free balance) requiredAmount
                      then (Inl (validateOrder_catch (Taxonomy (new_InsufficientFundsError
                              (''Insufficient '' @ template_of a @ '' balance. Required: ''
                               @ toString J requiredAmount @ '', Available: ''
                               @ toString J (free balance))))), s2)
                      else (Inr (), s2))))"

definition validateOrder ::
  "number_ops \<Rightarrow> 's BaseExchange \<Rightarrow> OrderParams \<Rightarrow> options \<Rightarrow> 's \<Rightarrow> (failure + unit) \<times> 's" where
  "validateOrder J this params opts s =
     (if \<not> str_truthy (symbol params)
        then (Inl (Taxonomy (new_InvalidOrderError ''Symbol is required'')), s)
      else if \<not> str_truthy (side params)
        then (Inl (Taxonomy (new_InvalidOrderError ''Side is required'')), s)
      else if \<not> str_truthy (type params)
        then (Inl (Taxonomy (new_InvalidOrderError ''Type is required'')), s)
      else if \<not> opt_num_truthy (quantity params) \<or> num_le (to_number (quantity params)) (Num 0)
        then (Inl (Taxonomy (new_InvalidOrderError ''Quantity must be greater than 0'')), s)
      else if toLowerCase (str_of (side params)) \<notin> set [''buy'', ''sell'']
        then (Inl (Taxonomy (new_InvalidOrderError ''Invalid side'')), s)
      else if toLowerCase (str_of (type params)) \<notin> set [''market'', ''limit'']
        then (Inl (Taxonomy (new_InvalidOrderError ''Invalid type'')), s)
      else if toLowerCase (str_of (type params)) = ''limit''
              \<and> (\<not> opt_num_truthy (price params) \<or> num_le (to_number (price params)) (Num 0))
        then (Inl (Taxonomy (new_InvalidOrderError
                ''Price is required for limit orders and must be greater than 0'')), s)
      else if skipBalanceCheck opts \<noteq> Some True
        then validateOrder_balance J this params s
      else (Inr (), s))"

text \<open>The handler shared by the two closing methods (lines 72-77 and 99-104).\<close>

definition closeOrder_catch :: "failure \<Rightarrow> string \<Rightarrow> failure" where
  "closeOrder_catch error defaultMessage =
     (if instanceof_InvalidOrderError error then error
      else Taxonomy (handleError error defaultMessage))"

text \<open>
  The last statement of both closing methods is \<open>return this.createOrder(closeParams)\<close>,
  without \<open>await\<close>: the promise is handed to the caller, so a rejection of it does not
  reach the handler of the \<open>try\<close> and is the outcome as it stands.
\<close>

definition closeOrderMarket ::
  "'s BaseExchange \<Rightarrow> string \<Rightarrow> string \<Rightarrow> 's \<Rightarrow> (failure + Order) \<times> 's" where
  "closeOrderMarket this symb oid s =
     (case getOrder this symb oid s of
        (Inl error, s1) \<Rightarrow>
          (Inl (closeOrder_catch error ''Failed to close order at market price''), s1)
      | (Inr None, s1) \<Rightarrow>
          (Inl (closeOrder_catch (Taxonomy (new_InvalidOrderError ''Order not found''))
                  ''Failed to close order at market price''), s1)
      | (Inr (Some order), s1) \<Rightarrow>
          (if \<not> str_truthy (orderId order)
           then (Inl (closeOrder_catch (Taxonomy (new_InvalidOrderError ''Order not found''))
                        ''Failed to close order at market price''), s1)
           else (case cancelOrder this symb oid s1 of
                   (Inl error, s2) \<Rightarrow>
                     (Inl (closeOrder_catch error ''Failed to close order at market price''), s2)
                 | (Inr canceled, s2) \<Rightarrow>
                     createOrder this
                       \<lparr>symbol = symbol order,
                        side = Some (if side order = Some ''buy'' then ''sell'' else ''buy''),
                        type = Some ''market'',
                        quantity = Some (remainingQuantity order),
                        price = None,
                        timeInForce = None\<rparr> s2)))"

definition closeOrderLimit ::
  "'s BaseExchange \<Rightarrow> string \<Rightarrow> string \<Rightarrow> number \<Rightarrow> 's \<Rightarrow> (failure + Order) \<times> 's" where
  "closeOrderLimit this symb oid p s =
     (case getOrder this symb oid s of
        (Inl error, s1) \<Rightarrow>
          (Inl (closeOrder_catch error ''Failed to close order at limit price''), s1)
      | (Inr None, s1) \<Rightarrow>
          (Inl (closeOrder_catch (Taxonomy (new_InvalidOrderError ''Order not found''))
                  ''Failed to close order at limit price''), s1)
      | (Inr (Some order), s1) \<Rightarrow>
          (if \<not> str_truthy (orderId order)
           then (Inl (closeOrder_catch (Taxonomy (new_InvalidOrderError ''Order not found''))
                        ''Failed to close order at limit price''), s1)
           else (case cancelOrder this symb oid s1 of
                   (Inl error, s2) \<Rightarrow>
                     (Inl (closeOrder_catch error ''Failed to close order at limit price''), s2)
                 | (Inr canceled, s2) \<Rightarrow>
                     createOrder this
                       \<lparr>symbol = symbol order,
                        side = Some (if side order = Some ''buy'' then ''sell'' else ''buy''),
                        type = Some ''limit'',
                        quantity = Some (remainingQuantity order),
                        price = Some p,
                        timeInForce = Some ''GTC''\<rparr> s2)))"

section \<open>Hyperliquid.createOrder (exchanges/Hyperliquid.ts)\<close>

text \<open>
  \<open>createOrder\<close> awaits \<open>this.validateOrder(params)\<close> outside its \<open>try\<close>, so a failed
  validation is the outcome as it stands; then it posts the order. The HTTP exchange
  and the transformation of the response are the parameter \<open>post\<close>; a failure there
  goes through \<open>handleError\<close>.
\<close>

definition Hyperliquid_createOrder ::
  "number_ops \<Rightarrow> 's BaseExchange \<Rightarrow> (OrderParams \<Rightarrow> 's \<Rightarrow> (failure + Order) \<times> 's)
     \<Rightarrow> OrderParams \<Rightarrow> 's \<Rightarrow> (failure + Order) \<times> 's" where
  "Hyperliquid_createOrder J this post params s =
     (case validateOrder J this params \<lparr>skipBalanceCheck = None\<rparr> s of
        (Inl error, s1) \<Rightarrow> (Inl error, s1)
      | (Inr u, s1) \<Rightarrow>
          (case post params s1 of
             (Inl error, s2) \<Rightarrow> (Inl (Taxonomy (handleError error ''Failed to create order'')), s2)
           | (Inr order, s2) \<Rightarrow> (Inr order, s2)))"

section \<open>The calls a method makes\<close>

text \<open>
  To speak of which abstract methods a method of the base class calls, and in which
  order, an exchange is wrapped so that each call of an abstract method is appended to
  a trace kept beside the state; outcomes and states are those of the wrapped exchange.
\<close>

datatype call =
  GetTickerCall string
| GetBalancesCall
| CreateOrderCall OrderParams
| GetOrderCall string string
| CancelOrderCall string string

definition recording :: "'s BaseExchange \<Rightarrow> (call list \<times> 's) BaseExchange" where
  "recording this =
     \<lparr>getTicker = (\<lambda>symb (trace, s).
        case getTicker this symb s of (r, s1) \<Rightarrow> (r, (trace @ [GetTickerCall symb], s1))),
      getBalances = (\<lambda>(trace, s).
        case getBalances this s of (r, s1) \<Rightarrow> (r, (trace @ [GetBalancesCall], s1))),
      createOrder = (\<lambda>params (trace, s).
        case createOrder this params s of (r, s1) \<Rightarrow> (r, (trace @ [CreateOrderCall params], s1))),
      getOrder = (\<lambda>symb oid (trace, s).
        case getOrder this symb oid s of (r, s1) \<Rightarrow> (r, (trace @ [GetOrderCall symb oid], s1))),
      cancelOrder = (\<lambda>symb oid (trace, s).
        case cancelOrder this symb oid s of (r, s1) \<Rightarrow> (r, (trace @ [CancelOrderCall symb oid], s1)))\<rparr>"

section \<open>makeRequest (utils/request.ts)\<close>

text \<open>
  The outcome of \<open>fetch\<close> is the parameter: the promise rejects (the host cannot be
  reached), or it resolves to a response with a status and a body. \<open>response.json()\<close>
  fails on a body that is not JSON. A parsed body is \<open>null\<close>, on which reading a
  property throws a \<open>TypeError\<close> (its message is the one of Node), or any other value,
  given by its \<open>error\<close> and \<open>code\<close> properties (absent on a number, a string or an
  object without them). \<open>response.ok\<close> holds for the statuses 200 to 299.
\<close>

datatype json = JsonNull | JsonValue (data_error: "string option") (data_code: "string option")

datatype response_body = Unparsable | Parsed json

record response =
  status :: nat
  body :: response_body






section \<open>A sample exchange\<close>

text \<open>
  An exchange to evaluate the methods on: orders are kept by identifier, cancelling
  removes an order from the book, and a posted order is accepted and recorded. The
  sample arithmetic multiplies without rounding and prints natural numbers in decimal;
  it agrees with the host on the small integers it is used on.
\<close>

definition sample_ops :: number_ops where
  "sample_ops =
     \<lparr>times = (\<lambda>a b. case a of
                 Num x \<Rightarrow> (case b of Num y \<Rightarrow> Num (x * y) | _ \<Rightarrow> NaN)
               | _ \<Rightarrow> NaN),
      toString = (\<lambda>a. case a of
                 Num x \<Rightarrow> (if 0 \<le> x \<and> x = of_int \<lfloor>x\<rfloor> then string_of_nat (nat \<lfloor>x\<rfloor>) else ''?'')
               | _ \<Rightarrow> ''?'')\<rparr>"

record world =
  book :: "(string \<times> Order) list"
  funds :: "Balance list"
  last_price :: number
  posted :: "OrderParams list"

definition sample_post :: "OrderParams \<Rightarrow> world \<Rightarrow> (failure + Order) \<times> world" where
  "sample_post params w =
     (Inr \<lparr>symbol = symbol params, side = side params, type = type params,
           quantity = quantity params, price = price params, timeInForce = timeInForce params,
           orderId = Some ''test-order'', Order.status = ''new'', filledQuantity = Num 0,
           remainingQuantity = to_number (quantity params), avgPrice = Num 0,
           timestamp = Num 0\<rparr>,
      w\<lparr>posted := posted w @ [params]\<rparr>)"

definition sample_exchange :: "world BaseExchange" where
  "sample_exchange =
     \<lparr>getTicker = (\<lambda>symb w.
        (Inr \<lparr>Ticker.symbol = symb, lastPrice = last_price w, bidPrice = last_price w,
              askPrice = last_price w, volume24h = Num 0, Ticker.timestamp = Num 0\<rparr>, w)),
      getBalances = (\<lambda>w. (Inr (funds w), w)),
      createOrder = sample_post,
      getOrder = (\<lambda>symb oid w. (Inr (map_of (book w) oid), w)),
      cancelOrder = (\<lambda>symb oid w. (Inr True, w\<lparr>book := filter (\<lambda>e. fst e \<noteq> oid) (book w)\<rparr>))\<rparr>"

text \<open>The sample exchange, except that it refuses every cancellation.\<close>

definition sample_rejecting_cancel :: "world BaseExchange" where
  "sample_rejecting_cancel =
     sample_exchange\<lparr>cancelOrder := (\<lambda>symb oid w.
       (Inl (Taxonomy (new_ExchangeError ''Order already filled''
               (Some ''ORDER_FILLED'') (Some 400))), w))\<rparr>"

text \<open>The sample exchange with the \<open>createOrder\<close> of Hyperliquid.\<close>

definition sample_Hyperliquid :: "world BaseExchange" where
  "sample_Hyperliquid =
     sample_exchange\<lparr>createOrder := Hyperliquid_createOrder sample_ops sample_exchange sample_post\<rparr>"

text \<open>
  The order of the test suite: a limit buy of 0.1 BTC at 50000, nothing filled. The
  literal \<open>0.1\<close> denotes the double nearest to one tenth.
\<close>

definition double_0_1 :: number where
  "double_0_1 = Num (3602879701896397 / 36028797018963968)"

definition sample_order :: "string \<Rightarrow> Order" where
  "sample_order oid =
     \<lparr>symbol = Some ''BTC-USDT'', side = Some ''buy'', type = Some ''limit'',
      quantity = Some double_0_1, price = Some (Num 50000), timeInForce = Some ''GTC'',
      orderId = Some oid, Order.status = ''new'', filledQuantity = Num 0,
      remainingQuantity = double_0_1, avgPrice = Num 0, timestamp = Num 0\<rparr>"

definition sample_world :: world where
  "sample_world =
     \<lparr>book = [(''order-1'', sample_order ''order-1'')],
      funds = [\<lparr>asset = ''BTC'', free = Num 1, locked = Num 0, total = Num 1\<rparr>,
               \<lparr>asset = ''USDT'', free = Num 5000, locked = Num 1000, total = Num 6000\<rparr>],
      last_price = Num 50000,
      posted = []\<rparr>"


section \<open>Auxiliary facts\<close>

lemmas error_ctor_defs =
  new_ExchangeError_def new_AuthenticationError_def new_InvalidOrderError_def
  new_InsufficientFundsError_def

lemmas sample_defs =
  sample_exchange_def sample_world_def sample_order_def sample_post_def sample_ops_def

lemma recording_simps:
  "getOrder (recording this) symb oid (trace, s) =
     (fst (getOrder this symb oid s),
      (trace @ [GetOrderCall symb oid], snd (getOrder this symb oid s)))"
  "cancelOrder (recording this) symb oid (trace, s) =
     (fst (cancelOrder this symb oid s),
      (trace @ [CancelOrderCall symb oid], snd (cancelOrder this symb oid s)))"
  "createOrder (recording this) params (trace, s) =
     (fst (createOrder this params s),
      (trace @ [CreateOrderCall params], snd (createOrder this params s)))"
  by (simp_all add: recording_def split: prod.splits)

lemma closeOrder_catch_not_found:
  "closeOrder_catch (Taxonomy (new_InvalidOrderError m)) d = Taxonomy (new_InvalidOrderError m)"
  by (simp add: closeOrder_catch_def error_ctor_defs)

lemma validateOrder_catch_InsufficientFunds:
  "validateOrder_catch (Taxonomy (new_InsufficientFundsError m))
     = Taxonomy (new_InsufficientFundsError m)"
  by (simp add: validateOrder_catch_def error_ctor_defs)

lemma toLowerCase_literals:
  "toLowerCase ''buy'' = ''buy''" "toLowerCase ''sell'' = ''sell''"
  "toLowerCase ''market'' = ''market''" "toLowerCase ''limit'' = ''limit''"
  "toLowerCase ''MARKET'' = ''market''"
  by (simp_all add: toLowerCase_def lower_char_def)

text \<open>\<open>validateOrder\<close> reads the tickers and the balances of the exchange only.\<close>

lemma getBalance_ignores_createOrder:
  "getBalance (this\<lparr>createOrder := f\<rparr>) = getBalance this"
  by (rule ext, rule ext) (simp add: getBalance_def)

lemma getCurrentPrice_ignores_createOrder:
  "getCurrentPrice (this\<lparr>createOrder := f\<rparr>) = getCurrentPrice this"
  by (rule ext, rule ext) (simp add: getCurrentPrice_def)

lemma validateOrder_ignores_createOrder:
  "validateOrder J (this\<lparr>createOrder := f\<rparr>) params opts s = validateOrder J this params opts s"
  unfolding validateOrder_def validateOrder_balance_def
    getBalance_ignores_createOrder getCurrentPrice_ignores_createOrder
  by (rule refl)

lemma sample_Hyperliquid_createOrder:
  "createOrder sample_Hyperliquid = Hyperliquid_createOrder sample_ops sample_Hyperliquid sample_post"
  by (rule ext, rule ext)
     (simp add: sample_Hyperliquid_def Hyperliquid_createOrder_def validateOrder_ignores_createOrder)

text \<open>
  An order that passes the structural checks reaches the balance check when
  \<open>skipBalanceCheck\<close> is unset, and carries a price if it is a limit order.
\<close>

lemma validateOrder_structural:
  assumes "validateOrder J this params \<lparr>skipBalanceCheck = Some True\<rparr> s = (Inr (), s)"
  shows "validateOrder J this params \<lparr>skipBalanceCheck = None\<rparr> s
           = validateOrder_balance J this params s"
    and "toLowerCase (str_of (type params)) = ''limit'' \<Longrightarrow> opt_num_truthy (price params)"
  using assms by (auto simp add: validateOrder_def split: if_splits)

section \<open>Properties of the error taxonomy\<close>

text \<open>
  C9. For every message, a constructed \<open>AuthenticationError\<close> carries code
  \<open>AUTH_ERROR\<close> and status 401, a constructed \<open>InvalidOrderError\<close> carries code
  \<open>INVALID_ORDER\<close> and status 400, and a constructed \<open>InsufficientFundsError\<close> carries
  code \<open>INSUFFICIENT_FUNDS\<close> and status 400.
\<close>

theorem subclass_code_and_status:
  "code (new_AuthenticationError m) = Some ''AUTH_ERROR''
   \<and> httpStatus (new_AuthenticationError m) = Some 401
   \<and> code (new_InvalidOrderError m) = Some ''INVALID_ORDER''
   \<and> httpStatus (new_InvalidOrderError m) = Some 400
   \<and> code (new_InsufficientFundsError m) = Some ''INSUFFICIENT_FUNDS''
   \<and> httpStatus (new_InsufficientFundsError m) = Some 400"
  by (simp add: error_ctor_defs)

text \<open>
  C8 says that construction requires a non-empty message. No constructor tests its
  message: each of the four classes is built from the empty message, and the value
  built carries it.
\<close>

theorem empty_message_is_constructed:
  "message (new_ExchangeError [] None None) = []
   \<and> message (new_AuthenticationError []) = []
   \<and> message (new_InvalidOrderError []) = []
   \<and> message (new_InsufficientFundsError []) = []"
  by (simp add: error_ctor_defs)

text \<open>
  C8, as the constructors are written: each of the four constructors accepts every
  message, the empty one included, and the error constructed carries exactly the
  message given.
\<close>

theorem constructors_keep_message:
  "message (new_ExchangeError m c h) = m
   \<and> message (new_AuthenticationError m) = m
   \<and> message (new_InvalidOrderError m) = m
   \<and> message (new_InsufficientFundsError m) = m"
  by (simp add: error_ctor_defs)

section \<open>Properties of handleError\<close>

text \<open>
  C1 speaks of every failure value. A thrown value that is not an \<open>Error\<close>, here a
  plain object with message \<open>bad key\<close> and code \<open>AUTH_ERROR\<close>, is outside the taxonomy
  and carries the code \<open>AUTH_ERROR\<close>, yet \<open>handleError\<close> throws a generic
  \<open>ExchangeError\<close> with the default message and no code for it, not an
  \<open>AuthenticationError\<close>.
\<close>

theorem handleError_plain_object_counterexample:
  "\<not> is_taxonomy (NonError (Some ''bad key'') (Some ''AUTH_ERROR''))
   \<and> carried_code (NonError (Some ''bad key'') (Some ''AUTH_ERROR'')) = Some ''AUTH_ERROR''
   \<and> handleError (NonError (Some ''bad key'') (Some ''AUTH_ERROR'')) ''Failed''
       = new_ExchangeError ''Failed'' None None
   \<and> name (handleError (NonError (Some ''bad key'') (Some ''AUTH_ERROR'')) ''Failed'')
       \<noteq> AuthenticationError"
  by (simp add: error_ctor_defs)

text \<open>
  C1, for the failures that are instances of \<open>Error\<close>, and with the case of the other
  values added. \<open>handleError e d\<close> always throws, and what it throws is an error of
  the taxonomy:
  \<^item> \<open>e\<close> itself, unchanged, if \<open>e\<close> is already one of the four kinds;
  \<^item> otherwise, if \<open>e\<close> is an \<open>Error\<close> that carries a code: an \<open>AuthenticationError\<close>
    for \<open>AUTH_ERROR\<close>, an \<open>InvalidOrderError\<close> for \<open>INVALID_ORDER\<close> and for
    \<open>NOT_FOUND\<close>, an \<open>InsufficientFundsError\<close> for \<open>INSUFFICIENT_FUNDS\<close>, each with the
    message of \<open>e\<close> or a fixed text when \<open>e\<close> has none, and for any other code a generic
    \<open>ExchangeError\<close> carrying that code, with the message of \<open>e\<close>, or \<open>d\<close> when \<open>e\<close> has
    none;
  \<^item> if \<open>e\<close> is an \<open>Error\<close> without a code: a generic \<open>ExchangeError\<close> whose message is
    that of \<open>e\<close>, or \<open>d\<close> when \<open>e\<close> has none;
  \<^item> if \<open>e\<close> is not an \<open>Error\<close>: a generic \<open>ExchangeError\<close> with message \<open>d\<close> and no
    code, whatever \<open>e\<close> carries.
\<close>

theorem handleError_normalises:
  "(is_taxonomy e \<longrightarrow> Taxonomy (handleError e d) = e)
   \<and> (instanceof_Error e \<and> \<not> is_taxonomy e \<longrightarrow>
       (case carried_code e of
          Some c \<Rightarrow>
            (if c = ''AUTH_ERROR''
               then handleError e d
                      = new_AuthenticationError (str_or (carried_message e) ''Authentication failed'')
             else if c = ''INVALID_ORDER''
               then handleError e d
                      = new_InvalidOrderError (str_or (carried_message e) ''Invalid order parameters'')
             else if c = ''INSUFFICIENT_FUNDS''
               then handleError e d
                      = new_InsufficientFundsError (str_or (carried_message e) ''Insufficient funds'')
             else if c = ''NOT_FOUND''
               then handleError e d
                      = new_InvalidOrderError (str_or (carried_message e) ''Order not found'')
             else handleError e d = new_ExchangeError (str_or (carried_message e) d) (Some c) None)
        | None \<Rightarrow> handleError e d = new_ExchangeError (str_or (carried_message e) d) None None))
   \<and> (\<not> instanceof_Error e \<longrightarrow> handleError e d = new_ExchangeError d None None)"
proof (cases e)
  case (Taxonomy x)
  then show ?thesis by simp
next
  case (OtherError m c)
  then show ?thesis by (cases c) simp_all
next
  case (NonError m c)
  then show ?thesis by simp
qed

theorem handleError_normalises_witness:
  "Taxonomy (handleError (Taxonomy (new_InvalidOrderError ''Order not found'')) ''Failed'')
     = Taxonomy (new_InvalidOrderError ''Order not found'')
   \<and> handleError (OtherError ''no such order'' (Some ''NOT_FOUND'')) ''Failed''
     = new_InvalidOrderError ''no such order''
   \<and> handleError (OtherError [] (Some ''RATE_LIMIT'')) ''Failed''
     = new_ExchangeError ''Failed'' (Some ''RATE_LIMIT'') None
   \<and> handleError (OtherError ''fetch failed'' None) ''Failed''
     = new_ExchangeError ''fetch failed'' None None
   \<and> handleError (NonError None None) ''Failed'' = new_ExchangeError ''Failed'' None None"
  using handleError_normalises [of "Taxonomy (new_InvalidOrderError ''Order not found'')" "''Failed''"]
    handleError_normalises [of "OtherError ''no such order'' (Some ''NOT_FOUND'')" "''Failed''"]
    handleError_normalises [of "OtherError [] (Some ''RATE_LIMIT'')" "''Failed''"]
    handleError_normalises [of "OtherError ''fetch failed'' None" "''Failed''"]
    handleError_normalises [of "NonError None None" "''Failed''"]
  by (simp add: str_or_def)

section \<open>Properties of makeRequest\<close>




section \<open>Properties of validateOrder\<close>

text \<open>
  C6 says that a quantity that is absent or not positive is reported regardless of the
  other fields, also when the symbol is absent. The checks run in order and the first
  failure wins: with no symbol and quantity 0 the failure is \<open>Symbol is required\<close>.
\<close>

theorem validateOrder_symbol_first_counterexample:
  "fst (validateOrder sample_ops sample_exchange
          \<lparr>symbol = None, side = Some ''buy'', type = Some ''market'',
           quantity = Some (Num 0), price = None, timeInForce = None\<rparr>
          \<lparr>skipBalanceCheck = None\<rparr> sample_world)
     = Inl (Taxonomy (new_InvalidOrderError ''Symbol is required''))
   \<and> new_InvalidOrderError ''Symbol is required''
     \<noteq> new_InvalidOrderError ''Quantity must be greater than 0''"
  by (simp add: validateOrder_def error_ctor_defs)

text \<open>
  C6, for orders whose symbol, side and type are present. For every such order whose
  quantity is absent or at most 0, \<open>validateOrder\<close> fails with the \<open>InvalidOrderError\<close>
  \<open>Quantity must be greater than 0\<close>, whatever the other fields hold (side and type
  may be invalid values, the price may be missing), whatever the options, and without
  touching the exchange.
\<close>

theorem validateOrder_quantity:
  assumes "str_truthy (symbol params)" and "str_truthy (side params)"
    and "str_truthy (type params)"
    and "quantity params = None \<or> num_le (to_number (quantity params)) (Num 0)"
  shows "validateOrder J this params opts s
           = (Inl (Taxonomy (new_InvalidOrderError ''Quantity must be greater than 0'')), s)"
  using assms by (auto simp add: validateOrder_def)

theorem validateOrder_quantity_witness:
  "validateOrder sample_ops sample_exchange
     \<lparr>symbol = Some ''BTC-USDT'', side = Some ''hold'', type = Some ''stop'',
      quantity = Some (Num (- 1)), price = None, timeInForce = None\<rparr>
     \<lparr>skipBalanceCheck = None\<rparr> sample_world
   = (Inl (Taxonomy (new_InvalidOrderError ''Quantity must be greater than 0'')), sample_world)"
  by (rule validateOrder_quantity) simp_all

text \<open>
  C2 says that an order that passes the structural checks either fails with
  \<open>InsufficientFundsError\<close> or is accepted. A market order to sell ETH passes the
  structural checks, but the account lists no ETH balance: \<open>getBalance\<close> throws, and
  the validation fails with an \<open>InvalidOrderError\<close>.
\<close>

theorem validateOrder_no_balance_entry_counterexample:
  "validateOrder sample_ops sample_exchange
     \<lparr>symbol = Some ''ETH-USDT'', side = Some ''sell'', type = Some ''market'',
      quantity = Some (Num 1), price = None, timeInForce = None\<rparr>
     \<lparr>skipBalanceCheck = Some True\<rparr> sample_world
   = (Inr (), sample_world)
   \<and> validateOrder sample_ops sample_exchange
     \<lparr>symbol = Some ''ETH-USDT'', side = Some ''sell'', type = Some ''market'',
      quantity = Some (Num 1), price = None, timeInForce = None\<rparr>
     \<lparr>skipBalanceCheck = None\<rparr> sample_world
   = (Inl (Taxonomy (new_InvalidOrderError ''Balance not found for asset ETH'')), sample_world)
   \<and> name (new_InvalidOrderError ''Balance not found for asset ETH'') \<noteq> InsufficientFundsError"
  by (simp add: validateOrder_def validateOrder_balance_def getBalance_def toLowerCase_literals
      element_def validateOrder_catch_def sample_defs error_ctor_defs)

text \<open>
  C2, for orders whose side and type are spelled as the types declare them (\<open>buy\<close> or
  \<open>sell\<close>, \<open>market\<close> or \<open>limit\<close>) and for which the two lookups return. Let such an order
  pass the structural checks, with \<open>skipBalanceCheck\<close> unset. The symbol is split on
  \<open>-\<close> into base and quote; the asset is the quote when side is \<open>buy\<close> and the base
  otherwise. If \<open>getBalance\<close> returns the balance of that asset, and the reference price
  is the price of the order when type is \<open>limit\<close> and the price is present, and
  otherwise what \<open>getCurrentPrice\<close> returns for the symbol, then with the required amount
  being quantity times reference price when side is \<open>buy\<close> and the quantity otherwise,
  the validation fails with \<open>InsufficientFundsError\<close> and the message
  \<open>Insufficient {asset} balance. Required: {requiredAmount}, Available: {balance.free}\<close>
  exactly when \<open>balance.free < requiredAmount\<close>, and succeeds otherwise.
\<close>

theorem validateOrder_balance_check:
  assumes "validateOrder J this params \<lparr>skipBalanceCheck = Some True\<rparr> s = (Inr (), s)"
    and "side params = Some ''buy'' \<or> side params = Some ''sell''"
    and "type params = Some ''market'' \<or> type params = Some ''limit''"
    and "str_split CHR ''-'' (str_of (symbol params)) = parts"
    and "a = (if side params = Some ''buy'' then element parts 1 else element parts 0)"
    and "getBalance this a s = (Inr balance, s_balance)"
    and "(if type params = Some ''limit'' \<and> price params \<noteq> None
          then (Inr (to_number (price params)), s_balance)
          else getCurrentPrice this (str_of (symbol params)) s_balance)
         = (Inr referencePrice, s_price)"
    and "requiredAmount =
           (if side params = Some ''buy''
            then times J (to_number (quantity params)) referencePrice
            else to_number (quantity params))"
  shows "validateOrder J this params \<lparr>skipBalanceCheck = None\<rparr> s
         = (if num_lt (free balance) requiredAmount
            then Inl (Taxonomy (new_InsufficientFundsError
                   (''Insufficient '' @ template_of a @ '' balance. Required: ''
                    @ toString J requiredAmount @ '', Available: ''
                    @ toString J (free balance))))
            else Inr (),
            s_price)"
proof -
  note pass = validateOrder_structural [OF assms(1)]
  have price: "type params = Some ''limit'' \<Longrightarrow> opt_num_truthy (price params)"
    using pass(2) by (simp add: toLowerCase_literals)
  have ref: "(if type params = Some ''market'' \<or> \<not> opt_num_truthy (price params)
              then getCurrentPrice this (str_of (symbol params)) s_balance
              else (Inr (to_number (price params)), s_balance))
             = (Inr referencePrice, s_price)"
  proof (cases "type params = Some ''market''")
    case True
    with assms(7) show ?thesis by simp
  next
    case False
    with assms(3) have lim: "type params = Some ''limit''" by simp
    from price [OF lim] have "price params \<noteq> None" by (cases "price params") simp_all
    with lim price [OF lim] assms(7) show ?thesis by simp
  qed
  have a: "(if side params = Some ''buy''
             then element (str_split CHR ''-'' (str_of (symbol params))) 1
             else element (str_split CHR ''-'' (str_of (symbol params))) 0) = a"
    using assms(4,5) by simp
  show ?thesis
    unfolding pass(1) validateOrder_balance_def Let_def a assms(6) prod.case sum.case ref
    using assms(8) by (simp add: validateOrder_catch_InsufficientFunds)
qed

theorem validateOrder_balance_check_witness:
  "validateOrder sample_ops sample_exchange
     \<lparr>symbol = Some ''BTC-USDT'', side = Some ''buy'', type = Some ''market'',
      quantity = Some (Num 2), price = None, timeInForce = None\<rparr>
     \<lparr>skipBalanceCheck = None\<rparr> sample_world
   = (Inl (Taxonomy (new_InsufficientFundsError
             ''Insufficient USDT balance. Required: 100000, Available: 5000'')),
      sample_world)
   \<and> validateOrder sample_ops sample_exchange
     \<lparr>symbol = Some ''BTC-USDT'', side = Some ''sell'', type = Some ''limit'',
      quantity = Some (Num 1), price = Some (Num 51000), timeInForce = None\<rparr>
     \<lparr>skipBalanceCheck = None\<rparr> sample_world
   = (Inr (), sample_world)"
proof -
  let ?buy = "\<lparr>symbol = Some ''BTC-USDT'', side = Some ''buy'', type = Some ''market'',
      quantity = Some (Num 2), price = None, timeInForce = None\<rparr>"
  let ?sell = "\<lparr>symbol = Some ''BTC-USDT'', side = Some ''sell'', type = Some ''limit'',
      quantity = Some (Num 1), price = Some (Num 51000), timeInForce = None\<rparr>"
  have pass_buy: "validateOrder sample_ops sample_exchange ?buy \<lparr>skipBalanceCheck = Some True\<rparr>
      sample_world = (Inr (), sample_world)"
    by (simp add: validateOrder_def toLowerCase_literals)
  have pass_sell: "validateOrder sample_ops sample_exchange ?sell \<lparr>skipBalanceCheck = Some True\<rparr>
      sample_world = (Inr (), sample_world)"
    by (simp add: validateOrder_def toLowerCase_literals)
  have parts: "str_split CHR ''-'' (str_of (symbol ?buy)) = [''BTC'', ''USDT'']"
    "str_split CHR ''-'' (str_of (symbol ?sell)) = [''BTC'', ''USDT'']"
    by simp_all
  have usdt: "getBalance sample_exchange (Some ''USDT'') sample_world
      = (Inr \<lparr>asset = ''USDT'', free = Num 5000, locked = Num 1000, total = Num 6000\<rparr>,
         sample_world)"
    by (simp add: getBalance_def sample_defs)
  have btc: "getBalance sample_exchange (Some ''BTC'') sample_world
      = (Inr \<lparr>asset = ''BTC'', free = Num 1, locked = Num 0, total = Num 1\<rparr>, sample_world)"
    by (simp add: getBalance_def sample_defs)
  have current: "getCurrentPrice sample_exchange ''BTC-USDT'' sample_world
      = (Inr (Num 50000), sample_world)"
    by (simp add: getCurrentPrice_def sample_defs)
  have digits: "string_of_nat 100000 = ''100000''" "string_of_nat 5000 = ''5000''"
    by (simp_all add: string_of_nat.simps digit_def)
  have buy: "validateOrder sample_ops sample_exchange ?buy \<lparr>skipBalanceCheck = None\<rparr> sample_world
   = (Inl (Taxonomy (new_InsufficientFundsError
             ''Insufficient USDT balance. Required: 100000, Available: 5000'')),
      sample_world)"
    using validateOrder_balance_check [where params = ?buy and a = "Some ''USDT''"
        and referencePrice = "Num 50000" and requiredAmount = "Num 100000"
        and s_price = sample_world, OF pass_buy _ _ parts(1) _ usdt]
    by (simp add: element_def current sample_ops_def digits)
  have sell: "validateOrder sample_ops sample_exchange ?sell \<lparr>skipBalanceCheck = None\<rparr> sample_world
   = (Inr (), sample_world)"
    using validateOrder_balance_check [where params = ?sell and a = "Some ''BTC''"
        and referencePrice = "Num 51000" and requiredAmount = "Num 1"
        and s_price = sample_world and J = sample_ops, OF pass_sell _ _ parts(2) _ btc]
    by (simp add: element_def)
  from buy sell show ?thesis by (rule conjI)
qed

text \<open>
  Outside that spelling the balance check and the structural checks disagree: the
  structural checks lower-case \<open>side\<close> and \<open>type\<close>, the balance check compares them as
  they are. A buy order of type \<open>MARKET\<close> that carries a price of 1 is accepted on 5000
  USDT, although at the current price of 50000 it needs 50000.
\<close>

lemma validateOrder_capitalised_market:
  "validateOrder sample_ops sample_exchange
     \<lparr>symbol = Some ''BTC-USDT'', side = Some ''buy'', type = Some ''MARKET'',
      quantity = Some (Num 1), price = Some (Num 1), timeInForce = None\<rparr>
     \<lparr>skipBalanceCheck = None\<rparr> sample_world
   = (Inr (), sample_world)
   \<and> getCurrentPrice sample_exchange ''BTC-USDT'' sample_world = (Inr (Num 50000), sample_world)
   \<and> num_lt (Num 5000) (times sample_ops (Num 1) (Num 50000))"
  by (simp add: validateOrder_def validateOrder_balance_def getBalance_def getCurrentPrice_def
      toLowerCase_literals element_def sample_defs)

section \<open>Properties of closeOrderMarket and closeOrderLimit\<close>

text \<open>
  C5. For every symbol and order identifier for which \<open>getOrder\<close> produces no order, or
  an order whose \<open>orderId\<close> is absent or empty, both \<open>closeOrderMarket\<close> and
  \<open>closeOrderLimit\<close> fail with the \<open>InvalidOrderError\<close> \<open>Order not found\<close>, as it was
  constructed; the call of \<open>getOrder\<close> is the only call made on the exchange, so neither
  \<open>cancelOrder\<close> nor \<open>createOrder\<close> is attempted, and the state is the one \<open>getOrder\<close>
  left.
\<close>

theorem closeOrder_not_found:
  assumes "getOrder this symb oid s = (Inr found, s_fetched)"
    and "case found of None \<Rightarrow> True | Some order \<Rightarrow> \<not> str_truthy (orderId order)"
  shows "closeOrderMarket (recording this) symb oid (trace, s)
           = (Inl (Taxonomy (new_InvalidOrderError ''Order not found'')),
              (trace @ [GetOrderCall symb oid], s_fetched))
       \<and> closeOrderLimit (recording this) symb oid p (trace, s)
           = (Inl (Taxonomy (new_InvalidOrderError ''Order not found'')),
              (trace @ [GetOrderCall symb oid], s_fetched))"
  using assms
  by (cases found)
     (simp_all add: closeOrderMarket_def closeOrderLimit_def recording_simps
        closeOrder_catch_not_found)

theorem closeOrder_not_found_witness:
  "closeOrderMarket (recording sample_exchange) ''BTC-USDT'' ''non-existent-id'' ([], sample_world)
     = (Inl (Taxonomy (new_InvalidOrderError ''Order not found'')),
        ([GetOrderCall ''BTC-USDT'' ''non-existent-id''], sample_world))
   \<and> closeOrderLimit (recording sample_exchange) ''BTC-USDT'' ''non-existent-id'' (Num 50000)
       ([], sample_world)
     = (Inl (Taxonomy (new_InvalidOrderError ''Order not found'')),
        ([GetOrderCall ''BTC-USDT'' ''non-existent-id''], sample_world))"
proof -
  have fetched: "getOrder sample_exchange ''BTC-USDT'' ''non-existent-id'' sample_world
      = (Inr None, sample_world)"
    by (simp add: sample_exchange_def sample_world_def)
  have absent: "case None :: Order option of None \<Rightarrow> True
      | Some order \<Rightarrow> \<not> str_truthy (orderId order)"
    by simp
  show ?thesis
    using closeOrder_not_found [OF fetched absent, where trace = "[]" and p = "Num 50000"]
    by simp
qed

text \<open>
  C3 says that the close order is submitted whenever \<open>getOrder\<close> returns an order with an
  identifier. When the exchange refuses the cancellation, \<open>closeOrderMarket\<close> stops
  there: the calls are \<open>getOrder\<close> and \<open>cancelOrder\<close>, no order is submitted, and the
  refusal is the outcome.
\<close>

theorem closeOrderMarket_cancel_rejected_counterexample:
  "closeOrderMarket (recording sample_rejecting_cancel) ''BTC-USDT'' ''order-1'' ([], sample_world)
   = (Inl (Taxonomy (new_ExchangeError ''Order already filled'' (Some ''ORDER_FILLED'') (Some 400))),
      ([GetOrderCall ''BTC-USDT'' ''order-1'', CancelOrderCall ''BTC-USDT'' ''order-1''],
       sample_world))"
  by (simp add: closeOrderMarket_def recording_simps sample_rejecting_cancel_def sample_defs
      closeOrder_catch_def error_ctor_defs)

text \<open>
  C3, when the cancellation returns. For every symbol and order identifier for which
  \<open>getOrder\<close> returns an order with a non-empty \<open>orderId\<close>, \<open>closeOrderMarket\<close> calls
  \<open>cancelOrder\<close> with that symbol and identifier and, once this call has returned, calls
  \<open>createOrder\<close> with a new order: the symbol of the fetched order, the side reversed
  (\<open>buy\<close> becomes \<open>sell\<close>, \<open>sell\<close> becomes \<open>buy\<close>), type \<open>market\<close>, the remaining quantity of
  the fetched order as quantity, and neither price nor time in force. These are the only
  calls, in this order, and the outcome is that of \<open>createOrder\<close>.
\<close>

theorem closeOrderMarket_cancels_then_submits:
  assumes "getOrder this symb oid s = (Inr (Some order), s_fetched)"
    and "str_truthy (orderId order)"
    and "cancelOrder this symb oid s_fetched = (Inr canceled, s_cancelled)"
    and "closeParams =
           \<lparr>symbol = symbol order,
            side = Some (if side order = Some ''buy'' then ''sell'' else ''buy''),
            type = Some ''market'', quantity = Some (remainingQuantity order),
            price = None, timeInForce = None\<rparr>"
  shows "closeOrderMarket (recording this) symb oid (trace, s)
           = (fst (createOrder this closeParams s_cancelled),
              (trace @ [GetOrderCall symb oid, CancelOrderCall symb oid, CreateOrderCall closeParams],
               snd (createOrder this closeParams s_cancelled)))"
  using assms by (simp add: closeOrderMarket_def recording_simps)

text \<open>The order of the test suite: a buy with 0.1 remaining is closed by a market sell of 0.1.\<close>

theorem closeOrderMarket_cancels_then_submits_witness:
  "fst (snd (closeOrderMarket (recording sample_exchange) ''BTC-USDT'' ''order-1''
               ([], sample_world)))
   = [GetOrderCall ''BTC-USDT'' ''order-1'', CancelOrderCall ''BTC-USDT'' ''order-1'',
      CreateOrderCall
        \<lparr>symbol = Some ''BTC-USDT'', side = Some ''sell'', type = Some ''market'',
         quantity = Some double_0_1, price = None, timeInForce = None\<rparr>]"
proof -
  have fetched: "getOrder sample_exchange ''BTC-USDT'' ''order-1'' sample_world
      = (Inr (Some (sample_order ''order-1'')), sample_world)"
    by (simp add: sample_exchange_def sample_world_def)
  have present: "str_truthy (orderId (sample_order ''order-1''))"
    by (simp add: sample_order_def)
  have cancelled: "cancelOrder sample_exchange ''BTC-USDT'' ''order-1'' sample_world
      = (Inr True, sample_world\<lparr>book := []\<rparr>)"
    by (simp add: sample_exchange_def sample_world_def)
  show ?thesis
    using closeOrderMarket_cancels_then_submits
        [OF fetched present cancelled refl, where trace = "[]"]
    by (simp add: sample_order_def)
qed

text \<open>
  C4 says the same of \<open>closeOrderLimit\<close>, and fails in the same way: when the exchange
  refuses the cancellation no order is submitted.
\<close>

theorem closeOrderLimit_cancel_rejected_counterexample:
  "closeOrderLimit (recording sample_rejecting_cancel) ''BTC-USDT'' ''order-1'' (Num 51000)
     ([], sample_world)
   = (Inl (Taxonomy (new_ExchangeError ''Order already filled'' (Some ''ORDER_FILLED'') (Some 400))),
      ([GetOrderCall ''BTC-USDT'' ''order-1'', CancelOrderCall ''BTC-USDT'' ''order-1''],
       sample_world))"
  by (simp add: closeOrderLimit_def recording_simps sample_rejecting_cancel_def sample_defs
      closeOrder_catch_def error_ctor_defs)

text \<open>
  C4, when the cancellation returns. For every symbol, order identifier and price \<open>p\<close>
  for which \<open>getOrder\<close> returns an order with a non-empty \<open>orderId\<close>, \<open>closeOrderLimit\<close>
  calls \<open>cancelOrder\<close> and, once this call has returned, calls \<open>createOrder\<close> with a new
  order: the symbol of the fetched order, the side reversed, type \<open>limit\<close>, the remaining
  quantity of the fetched order as quantity, price \<open>p\<close> and time in force \<open>GTC\<close>. These
  are the only calls, in this order, and the outcome is that of \<open>createOrder\<close>.
\<close>

theorem closeOrderLimit_cancels_then_submits:
  assumes "getOrder this symb oid s = (Inr (Some order), s_fetched)"
    and "str_truthy (orderId order)"
    and "cancelOrder this symb oid s_fetched = (Inr canceled, s_cancelled)"
    and "closeParams =
           \<lparr>symbol = symbol order,
            side = Some (if side order = Some ''buy'' then ''sell'' else ''buy''),
            type = Some ''limit'', quantity = Some (remainingQuantity order),
            price = Some p, timeInForce = Some ''GTC''\<rparr>"
  shows "closeOrderLimit (recording this) symb oid p (trace, s)
           = (fst (createOrder this closeParams s_cancelled),
              (trace @ [GetOrderCall symb oid, CancelOrderCall symb oid, CreateOrderCall closeParams],
               snd (createOrder this closeParams s_cancelled)))"
  using assms by (simp add: closeOrderLimit_def recording_simps)

text \<open>The same order closed at 51000: a limit sell of 0.1 at 51000, good till cancelled.\<close>

theorem closeOrderLimit_cancels_then_submits_witness:
  "fst (snd (closeOrderLimit (recording sample_exchange) ''BTC-USDT'' ''order-1'' (Num 51000)
               ([], sample_world)))
   = [GetOrderCall ''BTC-USDT'' ''order-1'', CancelOrderCall ''BTC-USDT'' ''order-1'',
      CreateOrderCall
        \<lparr>symbol = Some ''BTC-USDT'', side = Some ''sell'', type = Some ''limit'',
         quantity = Some double_0_1, price = Some (Num 51000), timeInForce = Some ''GTC''\<rparr>]"
proof -
  have fetched: "getOrder sample_exchange ''BTC-USDT'' ''order-1'' sample_world
      = (Inr (Some (sample_order ''order-1'')), sample_world)"
    by (simp add: sample_exchange_def sample_world_def)
  have present: "str_truthy (orderId (sample_order ''order-1''))"
    by (simp add: sample_order_def)
  have cancelled: "cancelOrder sample_exchange ''BTC-USDT'' ''order-1'' sample_world
      = (Inr True, sample_world\<lparr>book := []\<rparr>)"
    by (simp add: sample_exchange_def sample_world_def)
  show ?thesis
    using closeOrderLimit_cancels_then_submits
        [OF fetched present cancelled refl, where trace = "[]" and p = "Num 51000"]
    by (simp add: sample_order_def)
qed

section \<open>Closing an order that has nothing left\<close>

text \<open>
  C10 says that closing an order with remaining quantity 0 fails on the quantity of the
  close order. The close order takes its symbol from the fetched order, and
  \<open>validateOrder\<close> tests the symbol before the quantity: for a fetched order with an
  empty symbol the failure is \<open>Symbol is required\<close>.
\<close>

theorem closeOrderMarket_empty_symbol_counterexample:
  "fst (closeOrderMarket sample_Hyperliquid ''BTC-USDT'' ''order-2''
          (sample_world\<lparr>book :=
             [(''order-2'', (sample_order ''order-2'')
                 \<lparr>symbol := Some [], remainingQuantity := Num 0\<rparr>)]\<rparr>))
   = Inl (Taxonomy (new_InvalidOrderError ''Symbol is required''))
   \<and> new_InvalidOrderError ''Symbol is required''
       \<noteq> new_InvalidOrderError ''Quantity must be greater than 0''"
  by (simp add: closeOrderMarket_def sample_Hyperliquid_def Hyperliquid_createOrder_def
      validateOrder_def sample_defs error_ctor_defs)

text \<open>
  C10, for a fetched order that has a symbol. Let \<open>createOrder\<close> of the exchange be the
  one of Hyperliquid, which validates the order before it posts it. For every symbol and
  order identifier for which \<open>getOrder\<close> returns an order with a non-empty \<open>orderId\<close>, a
  non-empty symbol and remaining quantity 0, and for which the cancellation returns,
  \<open>closeOrderMarket\<close> calls \<open>cancelOrder\<close>, then \<open>createOrder\<close> with a close order of
  quantity 0, and fails with the \<open>InvalidOrderError\<close> \<open>Quantity must be greater than 0\<close>
  of the validation. The state it ends in is the one \<open>cancelOrder\<close> left: the cancellation
  is not undone, although the operation ends in an error.
\<close>

theorem closeOrderMarket_filled_order:
  assumes "createOrder this = Hyperliquid_createOrder J this post"
    and "getOrder this symb oid s = (Inr (Some order), s_fetched)"
    and "str_truthy (orderId order)"
    and "str_truthy (symbol order)"
    and "remainingQuantity order = Num 0"
    and "cancelOrder this symb oid s_fetched = (Inr canceled, s_cancelled)"
  shows "closeOrderMarket (recording this) symb oid (trace, s)
           = (Inl (Taxonomy (new_InvalidOrderError ''Quantity must be greater than 0'')),
              (trace @ [GetOrderCall symb oid, CancelOrderCall symb oid,
                        CreateOrderCall
                          \<lparr>symbol = symbol order,
                           side = Some (if side order = Some ''buy'' then ''sell'' else ''buy''),
                           type = Some ''market'', quantity = Some (Num 0),
                           price = None, timeInForce = None\<rparr>],
               s_cancelled))"
  using assms
  by (simp add: closeOrderMarket_def recording_simps Hyperliquid_createOrder_def validateOrder_def)

text \<open>
  On the sample exchange the filled order leaves the book and nothing is posted: the
  state after the failure differs from the state before.
\<close>

theorem closeOrderMarket_filled_order_witness:
  "closeOrderMarket (recording sample_Hyperliquid) ''BTC-USDT'' ''order-2''
     ([], sample_world\<lparr>book :=
         [(''order-2'', (sample_order ''order-2'')\<lparr>remainingQuantity := Num 0\<rparr>)]\<rparr>)
   = (Inl (Taxonomy (new_InvalidOrderError ''Quantity must be greater than 0'')),
      ([GetOrderCall ''BTC-USDT'' ''order-2'', CancelOrderCall ''BTC-USDT'' ''order-2'',
        CreateOrderCall
          \<lparr>symbol = Some ''BTC-USDT'', side = Some ''sell'', type = Some ''market'',
           quantity = Some (Num 0), price = None, timeInForce = None\<rparr>],
       sample_world\<lparr>book := []\<rparr>))
   \<and> sample_world\<lparr>book := []\<rparr>
       \<noteq> sample_world\<lparr>book :=
           [(''order-2'', (sample_order ''order-2'')\<lparr>remainingQuantity := Num 0\<rparr>)]\<rparr>"
proof -
  let ?filled = "(sample_order ''order-2'')\<lparr>remainingQuantity := Num 0\<rparr>"
  let ?before = "sample_world\<lparr>book := [(''order-2'', ?filled)]\<rparr>"
  have fetched: "getOrder sample_Hyperliquid ''BTC-USDT'' ''order-2'' ?before
      = (Inr (Some ?filled), ?before)"
    by (simp add: sample_Hyperliquid_def sample_exchange_def)
  have present: "str_truthy (orderId ?filled)" "str_truthy (symbol ?filled)"
    by (simp_all add: sample_order_def)
  have nothing_left: "remainingQuantity ?filled = Num 0"
    by simp
  have cancelled: "cancelOrder sample_Hyperliquid ''BTC-USDT'' ''order-2'' ?before
      = (Inr True, sample_world\<lparr>book := []\<rparr>)"
    by (simp add: sample_Hyperliquid_def sample_exchange_def)
  have changed: "sample_world\<lparr>book := []\<rparr> \<noteq> ?before"
    by (simp add: sample_world_def)
  show ?thesis
    using closeOrderMarket_filled_order
        [OF sample_Hyperliquid_createOrder fetched present nothing_left cancelled,
         where trace = "[]"]
      changed
    by (simp add: sample_order_def)
qed

end
